theory Spec2Isabelle
  imports Main "HOL-Library.AList"
begin

section \<open>The server (src/server.py)\<close>

subsection \<open>Data\<close>

text \<open>
  A \<open>WebSocket\<close> object is known to the server only by its identity, so a channel is a
  number. Usernames, passwords, group names and message texts are Python \<open>str\<close> values.
\<close>

type_synonym ws = nat

text \<open>
  The exceptions the modelled code can meet. All of them but \<open>CancelledError\<close> derive
  from Python's \<open>Exception\<close>; \<open>WebSocketDisconnect\<close> is declared by the web framework
  as \<open>class WebSocketDisconnect(Exception)\<close>.
\<close>

datatype exn =
    AttributeError
  | KeyError
  | RuntimeError
  | JSONDecodeError
  | WebSocketDisconnect
  | CancelledError

fun is_Exception :: "exn \<Rightarrow> bool" where
  "is_Exception CancelledError = False"
| "is_Exception _ = True"

text \<open>One value of \<open>self.user_data\<close>: \<open>{'password': hash, 'friends': []}\<close>.\<close>

record user_entry =
  password :: string
  friends :: "string list"

text \<open>
  An inbound frame, the \<open>data\<close> dictionary of \<open>websocket_endpoint\<close>, by its \<open>type\<close> field
  and with the fields the handlers read. \<open>group\<close> and \<open>to\<close> are read with \<open>data.get\<close>
  and so may be absent; \<open>to\<close> of a signalling frame is read with \<open>message['to']\<close>, which
  raises \<open>KeyError\<close> when absent. \<open>NoType\<close> is a frame without a \<open>type\<close> field.
\<close>

record chat_msg =
  m_username :: string
  m_content :: string
  m_timestamp :: string
  m_group :: "string option"
  m_to :: "string option"

datatype frame =
    Register string string
  | Login string string
  | Message chat_msg
  | CallRequest "string option" string
  | ScreenShare "string option" string
  | CreateGroup string "string list"
  | AddFriend string
  | Unrecognised string
  | NoType

text \<open>
  An outbound dictionary handed to \<open>send_json\<close>: one constructor for each dictionary the
  server builds, and \<open>Forwarded\<close> for an inbound frame passed on unchanged.
\<close>

datatype envelope =
    RegisterResponse bool "string option"
  | LoginFailure string
  | LoginSuccess string "string list"
  | UserOnline string
  | UserOffline string
  | GroupCreated string "string list" "string option"
  | FriendAdded string
  | FriendRequest string
  | Forwarded frame

text \<open>
  The state the server code reads and writes, together with the part of its environment
  that decides what a call on a channel does.
  \<^item> \<open>active_connections\<close> is the module-level dictionary (line 25), the only one the code
    writes; a Python dictionary keeps insertion order, which \<open>broadcast\<close> iterates, so it
    is an association list.
  \<^item> \<open>self_active_connections\<close> is the attribute of the same name (line 30), which the
    code never writes and reads once, at line 117, with a channel (or \<open>None\<close>) as the key
    and a name expected as the value.
  \<^item> \<open>user_credentials\<close> and \<open>user_data\<close> are the attributes of \<open>ChatServer\<close>;
    \<open>users_file\<close> is the content of \<open>server_data/users.json\<close>.
  \<^item> \<open>groups\<close> is the attribute \<open>self.groups\<close>; \<open>None\<close> when the object has no such
    attribute.
  \<^item> \<open>peer_gone\<close> are the channels whose peer has disconnected, \<open>close_calls\<close> the calls
    of \<open>close()\<close> in order, \<open>outbox\<close> the dictionaries delivered, in order.
\<close>

record world =
  active_connections :: "(string \<times> ws) list"
  self_active_connections :: "ws option \<rightharpoonup> string"
  user_credentials :: "string \<rightharpoonup> string"
  user_data :: "string \<rightharpoonup> user_entry"
  users_file :: "string \<rightharpoonup> user_entry"
  groups :: "(string \<rightharpoonup> string list) option"
  peer_gone :: "ws set"
  close_calls :: "ws list"
  outbox :: "(ws \<times> envelope) list"

text \<open>
  \<open>ChatServer.__init__\<close> (lines 29-36) sets \<open>user_credentials\<close> to the empty dictionary and
  loads \<open>user_data\<close> from the file; it assigns no \<open>groups\<close> attribute, and no other line of
  the source does. \<open>loaded\<close> is the content of the file, empty when the file is missing.
\<close>

definition init :: "(string \<rightharpoonup> user_entry) \<Rightarrow> world" where
  "init loaded =
     \<lparr> active_connections = [], self_active_connections = Map.empty,
       user_credentials = Map.empty, user_data = loaded,
       users_file = loaded, groups = None, peer_gone = {}, close_calls = [], outbox = [] \<rparr>"

subsection \<open>Channels\<close>

text \<open>
  \<open>send_json\<close> delivers the dictionary, or raises when the peer has disconnected or the
  server has closed the channel. A procedure returns the exception it raised, if any, and
  the state at that moment.
\<close>

definition send_json :: "ws \<Rightarrow> envelope \<Rightarrow> world \<Rightarrow> exn option \<times> world" where
  "send_json w m s =
     (if w \<in> peer_gone s then (Some WebSocketDisconnect, s)
      else if w \<in> set (close_calls s) then (Some RuntimeError, s)
      else (None, s\<lparr>outbox := outbox s @ [(w, m)]\<rparr>))"

text \<open>\<open>close()\<close> raises on a channel already closed; the call is recorded either way.\<close>

definition close :: "ws \<Rightarrow> world \<Rightarrow> exn option \<times> world" where
  "close w s =
     (if w \<in> set (close_calls s) then Some RuntimeError else None,
      s\<lparr>close_calls := close_calls s @ [w]\<rparr>)"

subsection \<open>ChatServer\<close>

definition save_user_data :: "world \<Rightarrow> world" where
  "save_user_data s = s\<lparr>users_file := user_data s\<rparr>"

text \<open>\<open>register_user\<close>, lines 52-71.\<close>

definition register_user :: "ws \<Rightarrow> string \<Rightarrow> string \<Rightarrow> world \<Rightarrow> envelope \<times> world" where
  "register_user websocket username passwd s =
     (if username \<in> dom (user_credentials s)
      then (RegisterResponse False (Some ''Username already exists''), s)
      else
        let hashed_password = passwd;
            s1 = s\<lparr>user_credentials := (user_credentials s)(username \<mapsto> hashed_password)\<rparr>;
            s2 = s1\<lparr>user_data := (user_data s1)(username \<mapsto>
                     \<lparr>password = hashed_password, friends = []\<rparr>)\<rparr>
        in (RegisterResponse True None, save_user_data s2))"

text \<open>
  \<open>login_user\<close>, lines 73-98. The \<open>try: ... close() except: pass\<close> of lines 86-89 drops
  whatever \<open>close\<close> raises. \<open>self.user_data[username]\<close> raises \<open>KeyError\<close> for a user
  without an entry, after the channel has been stored.
\<close>

definition login_user :: "ws \<Rightarrow> string \<Rightarrow> string \<Rightarrow> world \<Rightarrow> (exn + envelope) \<times> world" where
  "login_user websocket username passwd s =
     (if username \<notin> dom (user_credentials s)
      then (Inr (LoginFailure ''Invalid username or password''), s)
      else if user_credentials s username \<noteq> Some passwd
      then (Inr (LoginFailure ''Invalid username or password''), s)
      else
        let s1 = (case map_of (active_connections s) username of
                    None \<Rightarrow> s
                  | Some old \<Rightarrow> snd (close old s));
            s2 = s1\<lparr>active_connections :=
                     AList.update username websocket (active_connections s1)\<rparr>
        in (case user_data s2 username of
              None \<Rightarrow> (Inl KeyError, s2)
            | Some e \<Rightarrow> (Inr (LoginSuccess username (friends e)), s2)))"

text \<open>
  \<open>broadcast\<close>, lines 100-104: the loop over \<open>active_connections.values()\<close>. Nothing
  catches what \<open>send_json\<close> raises, so the loop ends at the first send that fails.
\<close>

fun broadcast_loop :: "ws list \<Rightarrow> envelope \<Rightarrow> ws option \<Rightarrow> world \<Rightarrow> exn option \<times> world" where
  "broadcast_loop [] m sender s = (None, s)"
| "broadcast_loop (connection # rest) m sender s =
     (if Some connection \<noteq> sender
      then (case send_json connection m s of
              (Some e, s') \<Rightarrow> (Some e, s')
            | (None, s') \<Rightarrow> broadcast_loop rest m sender s')
      else broadcast_loop rest m sender s)"

definition broadcast :: "envelope \<Rightarrow> ws option \<Rightarrow> world \<Rightarrow> exn option \<times> world" where
  "broadcast m sender s = broadcast_loop (map snd (active_connections s)) m sender s"

text \<open>\<open>send_direct_message\<close>, lines 106-111: send to the first entry of that name, then \<open>break\<close>.\<close>

fun direct_loop :: "(string \<times> ws) list \<Rightarrow> string \<Rightarrow> envelope \<Rightarrow> world \<Rightarrow> exn option \<times> world" where
  "direct_loop [] recipient m s = (None, s)"
| "direct_loop ((username, w) # rest) recipient m s =
     (if username = recipient then send_json w m s
      else direct_loop rest recipient m s)"

definition send_direct_message :: "string \<Rightarrow> envelope \<Rightarrow> world \<Rightarrow> exn option \<times> world" where
  "send_direct_message recipient m s = direct_loop (active_connections s) recipient m s"

text \<open>
  \<open>broadcast_to_group\<close>, lines 113-118. Reading \<open>self.groups\<close> raises \<open>AttributeError\<close>
  when the attribute does not exist. The test of line 117 compares a member's name with
  \<open>self.active_connections.get(sender)\<close>, a lookup in the instance dictionary and not in
  the module-level one that \<open>login_user\<close> fills.
\<close>

fun group_loop :: "string list \<Rightarrow> envelope \<Rightarrow> ws option \<Rightarrow> world \<Rightarrow> exn option \<times> world" where
  "group_loop [] m sender s = (None, s)"
| "group_loop (username # rest) m sender s =
     (if Some username \<noteq> self_active_connections s sender
      then (case send_direct_message username m s of
              (Some e, s') \<Rightarrow> (Some e, s')
            | (None, s') \<Rightarrow> group_loop rest m sender s')
      else group_loop rest m sender s)"

definition broadcast_to_group ::
  "string \<Rightarrow> envelope \<Rightarrow> ws option \<Rightarrow> world \<Rightarrow> exn option \<times> world" where
  "broadcast_to_group group_name m sender s =
     (case groups s of
        None \<Rightarrow> (Some AttributeError, s)
      | Some g \<Rightarrow>
          let group_members = (case g group_name of None \<Rightarrow> [] | Some ms \<Rightarrow> ms)
          in group_loop group_members m sender s)"

text \<open>\<open>handle_call_request\<close> and \<open>handle_screen_share\<close>, lines 120-128.\<close>

definition handle_signal :: "string option \<Rightarrow> envelope \<Rightarrow> world \<Rightarrow> exn option \<times> world" where
  "handle_signal to m s =
     (case to of
        None \<Rightarrow> (Some KeyError, s)
      | Some recipient \<Rightarrow> send_direct_message recipient m s)"

text \<open>
  \<open>handle_create_group\<close>, lines 130-141. The assignment of line 134 stores the members
  under the name whatever was stored there before.
\<close>

definition handle_create_group ::
  "string \<Rightarrow> string list \<Rightarrow> string option \<Rightarrow> world \<Rightarrow> exn option \<times> world" where
  "handle_create_group group_name members creator s =
     (case groups s of
        None \<Rightarrow> (Some AttributeError, s)
      | Some g \<Rightarrow>
          let s1 = s\<lparr>groups := Some (g(group_name \<mapsto> members))\<rparr>
          in broadcast_to_group group_name (GroupCreated group_name members creator) None s1)"

text \<open>
  \<open>handle_add_friend\<close>, lines 143-158. \<open>requester\<close> is the endpoint's variable
  \<open>username\<close>, \<open>None\<close> before a login; \<open>self.user_data[...]\<close> raises \<open>KeyError\<close> on a key
  it does not hold. The two \<open>append\<close>s are made one after the other.
\<close>

definition append_friend :: "string \<Rightarrow> string \<Rightarrow> world \<Rightarrow> exn option \<times> world" where
  "append_friend owner friend s =
     (case user_data s owner of
        None \<Rightarrow> (Some KeyError, s)
      | Some e \<Rightarrow>
          (None, s\<lparr>user_data := (user_data s)(owner \<mapsto> e\<lparr>friends := friends e @ [friend]\<rparr>)\<rparr>))"

definition handle_add_friend :: "string \<Rightarrow> string option \<Rightarrow> world \<Rightarrow> exn option \<times> world" where
  "handle_add_friend friend_username requester s =
     (if friend_username \<in> dom (user_data s)
      then (case requester of
              None \<Rightarrow> (Some KeyError, s)
            | Some username \<Rightarrow>
                (case append_friend username friend_username s of
                   (Some e, s1) \<Rightarrow> (Some e, s1)
                 | (None, s1) \<Rightarrow>
                     (case append_friend friend_username username s1 of
                        (Some e, s2) \<Rightarrow> (Some e, s2)
                      | (None, s2) \<Rightarrow>
                          (case send_direct_message username (FriendAdded friend_username)
                                  (save_user_data s2) of
                             (Some e, s3) \<Rightarrow> (Some e, s3)
                           | (None, s3) \<Rightarrow>
                               send_direct_message friend_username (FriendRequest username) s3))))
      else (None, s))"

subsection \<open>The endpoint\<close>

text \<open>
  The three branches of a \<open>message\<close> frame, lines 194-202. \<open>data.get('group')\<close> and
  \<open>data.get('to')\<close> are tested for truth: an absent field and an empty string are false.
\<close>

definition route_message :: "ws \<Rightarrow> chat_msg \<Rightarrow> world \<Rightarrow> exn option \<times> world" where
  "route_message websocket m s =
     (case m_group m of
        Some (c # cs) \<Rightarrow> broadcast_to_group (c # cs) (Forwarded (Message m)) (Some websocket) s
      | _ \<Rightarrow>
          (case m_to m of
             Some (d # ds) \<Rightarrow> send_direct_message (d # ds) (Forwarded (Message m)) s
           | _ \<Rightarrow> broadcast (Forwarded (Message m)) (Some websocket) s))"

text \<open>
  The body of the inner \<open>try\<close> after \<open>receive_json\<close>, lines 179-214, for the connection
  \<open>websocket\<close> whose variable \<open>username\<close> has the value given. The result is the
  exception raised, if any, the variable \<open>username\<close>, and the state.
\<close>

definition dispatch ::
  "ws \<Rightarrow> string option \<Rightarrow> frame \<Rightarrow> world \<Rightarrow> exn option \<times> string option \<times> world" where
  "dispatch websocket username data s =
     (case data of
        NoType \<Rightarrow> (Some KeyError, username, s)
      | Register u p \<Rightarrow>
          (case register_user websocket u p s of
             (response, s1) \<Rightarrow>
               (case send_json websocket response s1 of (e, s2) \<Rightarrow> (e, username, s2)))
      | Login u p \<Rightarrow>
          (case login_user websocket u p s of
             (Inl e, s1) \<Rightarrow> (Some e, username, s1)
           | (Inr response, s1) \<Rightarrow>
               (case send_json websocket response s1 of
                  (Some e, s2) \<Rightarrow> (Some e, username, s2)
                | (None, s2) \<Rightarrow>
                    (case response of
                       LoginSuccess name fs \<Rightarrow>
                         (case broadcast (UserOnline name) (Some websocket) s2 of
                            (e, s3) \<Rightarrow> (e, Some name, s3))
                     | _ \<Rightarrow> (None, username, s2))))
      | Message m \<Rightarrow>
          (case route_message websocket m s of (e, s1) \<Rightarrow> (e, username, s1))
      | CallRequest to payload \<Rightarrow>
          (case handle_signal to (Forwarded data) s of (e, s1) \<Rightarrow> (e, username, s1))
      | ScreenShare to payload \<Rightarrow>
          (case handle_signal to (Forwarded data) s of (e, s1) \<Rightarrow> (e, username, s1))
      | CreateGroup group_name members \<Rightarrow>
          (case handle_create_group group_name members username s of
             (e, s1) \<Rightarrow> (e, username, s1))
      | AddFriend friend \<Rightarrow>
          (case handle_add_friend friend username s of (e, s1) \<Rightarrow> (e, username, s1))
      | Unrecognised t \<Rightarrow> (None, username, s))"

text \<open>
  The bodies of the two outer handlers, lines 223-234: \<open>username\<close> is tested for truth,
  then the entry of that name is deleted, whatever channel it holds.
\<close>

definition disconnect_cleanup :: "string option \<Rightarrow> world \<Rightarrow> exn option \<times> world" where
  "disconnect_cleanup username s =
     (case username of
        Some (c # cs) \<Rightarrow>
          (if map_of (active_connections s) (c # cs) \<noteq> None
           then broadcast (UserOffline (c # cs)) None
                  (s\<lparr>active_connections := AList.delete (c # cs) (active_connections s)\<rparr>)
           else (None, s))
      | _ \<Rightarrow> (None, s))"

definition error_cleanup :: "string option \<Rightarrow> world \<Rightarrow> world" where
  "error_cleanup username s =
     (case username of
        Some (c # cs) \<Rightarrow>
          (if map_of (active_connections s) (c # cs) \<noteq> None
           then s\<lparr>active_connections := AList.delete (c # cs) (active_connections s)\<rparr>
           else s)
      | _ \<Rightarrow> s)"

text \<open>
  One turn of the \<open>while True\<close> loop of \<open>websocket_endpoint\<close>, lines 174-234.
  \<open>receive_json\<close> either gives a frame or raises; both happen inside the inner \<open>try\<close>
  (line 175). The inner handlers (lines 216-221) come first: \<open>except Exception\<close> takes
  every exception deriving from \<open>Exception\<close>, \<open>WebSocketDisconnect\<close> among them, and
  continues the loop. Only what the inner handlers let through reaches the outer ones
  (lines 223-234).
\<close>

datatype recv = Received frame | Raised exn

datatype outcome = Continue "string option" world | Return world

definition loop_body :: "ws \<Rightarrow> string option \<Rightarrow> recv \<Rightarrow> world \<Rightarrow> outcome" where
  "loop_body websocket username r s =
     (case (case r of
              Raised e \<Rightarrow> (Some e, username, s)
            | Received data \<Rightarrow> dispatch websocket username data s) of
        (None, username', s') \<Rightarrow> Continue username' s'
      | (Some e, username', s') \<Rightarrow>
          (if e = JSONDecodeError then Continue username' s'
           else if is_Exception e then Continue username' s'
           else if e = WebSocketDisconnect then Return (snd (disconnect_cleanup username' s'))
           else if is_Exception e then Return (error_cleanup username' s')
           else Return s'))"

text \<open>
  Several connections served one frame at a time: \<open>locals\<close> holds the variable
  \<open>username\<close> of each connection's coroutine (\<open>None\<close> at its start, line 170),
  \<open>returned\<close> the connections whose coroutine has ended.
\<close>

record system =
  locals :: "ws \<Rightarrow> string option"
  returned :: "ws set"
  state :: world

definition step :: "ws \<times> recv \<Rightarrow> system \<Rightarrow> system" where
  "step ev sys =
     (case ev of (w, r) \<Rightarrow>
        (if w \<in> returned sys then sys
         else (case loop_body w (locals sys w) r (state sys) of
                 Continue u s' \<Rightarrow> sys\<lparr>locals := (locals sys)(w := u), state := s'\<rparr>
               | Return s' \<Rightarrow> sys\<lparr>returned := insert w (returned sys), state := s'\<rparr>)))"

fun run :: "(ws \<times> recv) list \<Rightarrow> system \<Rightarrow> system" where
  "run [] sys = sys"
| "run (ev # evs) sys = run evs (step ev sys)"

definition start :: "world \<Rightarrow> system" where
  "start s = \<lparr> locals = (\<lambda>w. None), returned = {}, state = s \<rparr>"

text \<open>
  \<open>broadcast_message\<close>, lines 236-253, the module-level function beside
  \<open>ChatServer.broadcast\<close>: each send has its own \<open>try\<close>, the names whose send failed
  are collected and their entries deleted after the loop. No line of the source calls it.
\<close>

fun broadcast_message_loop ::
  "(string \<times> ws) list \<Rightarrow> envelope \<Rightarrow> string option \<Rightarrow> string list \<Rightarrow> world
     \<Rightarrow> string list \<times> world" where
  "broadcast_message_loop [] m exclude disconnected_users s = (disconnected_users, s)"
| "broadcast_message_loop ((username, connection) # rest) m exclude disconnected_users s =
     (if Some username \<noteq> exclude
      then (case send_json connection m s of
              (None, s') \<Rightarrow> broadcast_message_loop rest m exclude disconnected_users s'
            | (Some e, s') \<Rightarrow>
                broadcast_message_loop rest m exclude (disconnected_users @ [username]) s')
      else broadcast_message_loop rest m exclude disconnected_users s)"

fun remove_users :: "string list \<Rightarrow> world \<Rightarrow> world" where
  "remove_users [] s = s"
| "remove_users (username # rest) s =
     (if map_of (active_connections s) username \<noteq> None
      then remove_users rest
             (s\<lparr>active_connections := AList.delete username (active_connections s)\<rparr>)
      else remove_users rest s)"

definition broadcast_message :: "envelope \<Rightarrow> string option \<Rightarrow> world \<Rightarrow> world" where
  "broadcast_message m exclude s =
     (case broadcast_message_loop (active_connections s) m exclude [] s of
        (disconnected_users, s') \<Rightarrow> remove_users disconnected_users s')"

section \<open>The client (src/client.py)\<close>

subsection \<open>Data\<close>

text \<open>
  What the network thread puts on \<open>message_queue\<close>: \<open>("STATUS", text, colour)\<close> and
  \<open>("CHAT", text)\<close>. What the client writes to the socket: the \<open>join\<close> frame of line 188
  and the \<open>message\<close> frame of line 130 (username, content, timestamp).
\<close>

text \<open>
  The text the user types is a Python \<open>str\<close> of any characters: the list of its code
  points.
\<close>

type_synonym pystr = "nat list"

datatype qitem = STATUS string string | CHAT string

datatype out_frame = Join string | Msg string pystr string

text \<open>
  Where the coroutine \<open>websocket_loop\<close> is waiting: in \<open>websockets.connect\<close> (line 173),
  in the \<open>send\<close> of the join frame (line 188), in \<open>recv\<close> (line 199) or in
  \<open>asyncio.sleep\<close> (line 230).
\<close>

datatype pc = Connecting | Joining | Receiving | Sleeping

text \<open>
  The attributes of \<open>ChatClient\<close> that the network code uses, and what it does to its
  surroundings: \<open>scheduled\<close> are the \<open>send_ws_message\<close> coroutines handed to the event
  loop by \<open>run_coroutine_threadsafe\<close> and not yet run, \<open>written\<close> the frames written to a
  socket, \<open>sleeps\<close> the arguments of \<open>asyncio.sleep\<close>, \<open>closed\<close> the sockets whose
  \<open>close()\<close> was called at line 145.
\<close>

record client =
  client_username :: string
  message_input :: pystr
  message_queue :: "qitem list"
  websocket :: "ws option"
  reconnect_delay :: int
  max_reconnect_delay :: int
  connected :: bool
  at :: pc
  scheduled :: "pystr list"
  written :: "out_frame list"
  sleeps :: "int list"
  closed :: "ws list"

text \<open>\<open>ChatClient.__init__\<close>, lines 68-75: the delay starts at 1, the maximum is 30.\<close>

definition client_init :: "string \<Rightarrow> client" where
  "client_init name =
     \<lparr> client_username = name, message_input = [], message_queue = [], websocket = None,
       reconnect_delay = 1, max_reconnect_delay = 30, connected = False, at = Connecting,
       scheduled = [], written = [], sleeps = [], closed = [] \<rparr>"

subsection \<open>Sending\<close>

text \<open>
  Python's \<open>str.strip()\<close> removes leading and trailing whitespace; the whitespace
  characters of a \<open>str\<close> are the code points U+0009 to U+000D, U+001C to U+0020, U+0085,
  U+00A0, U+1680, U+2000 to U+200A, U+2028, U+2029, U+202F, U+205F and U+3000.
\<close>

definition is_space :: "nat \<Rightarrow> bool" where
  "is_space c =
     ((0x09 \<le> c \<and> c \<le> 0x0D) \<or> (0x1C \<le> c \<and> c \<le> 0x20) \<or> c = 0x85 \<or> c = 0xA0 \<or>
      c = 0x1680 \<or> (0x2000 \<le> c \<and> c \<le> 0x200A) \<or> c = 0x2028 \<or> c = 0x2029 \<or>
      c = 0x202F \<or> c = 0x205F \<or> c = 0x3000)"

definition strip :: "pystr \<Rightarrow> pystr" where
  "strip xs = rev (dropWhile is_space (rev (dropWhile is_space xs)))"

text \<open>
  \<open>send_message\<close>, lines 104-121, run by the user interface on the text of the input
  field. When \<open>connected\<close> is false it puts one status on the queue and returns: the
  text, already deleted from the input field, is stored nowhere.
\<close>

definition send_message :: "client \<Rightarrow> client" where
  "send_message c =
     (let message = strip (message_input c) in
      if message = [] then c
      else
        let c1 = c\<lparr>message_input := []\<rparr> in
        if \<not> connected c1
        then c1\<lparr>message_queue := message_queue c1 @
               [STATUS ''Not connected to server. Message will be sent when connected.''
                       ''orange'']\<rparr>
        else c1\<lparr>scheduled := scheduled c1 @ [message]\<rparr>)"

text \<open>
  \<open>send_ws_message\<close>, lines 123-148. \<open>result\<close> is what \<open>self.websocket.send\<close> does:
  it returns, at the time given (\<open>datetime.now().isoformat()\<close>), or raises an exception
  with the text given.
\<close>

datatype send_result = SendReturns string | SendRaises string

definition send_ws_message :: "pystr \<Rightarrow> send_result \<Rightarrow> client \<Rightarrow> client" where
  "send_ws_message message result c =
     (case websocket c of
        None \<Rightarrow> c\<lparr>message_queue := message_queue c @ [STATUS ''Not connected to server'' ''red'']\<rparr>
      | Some w \<Rightarrow>
          (case result of
             SendReturns timestamp \<Rightarrow>
               c\<lparr>written := written c @ [Msg (client_username c) message timestamp],
                 reconnect_delay := 1\<rparr>
           | SendRaises e \<Rightarrow>
               c\<lparr>message_queue := message_queue c @
                    [STATUS (''Error sending message: '' @ e) ''red''],
                 connected := False,
                 closed := closed c @ [w],
                 websocket := None\<rparr>))"

subsection \<open>The reconnection loop\<close>

text \<open>
  The two handlers of lines 218-227, then the evaluation of the argument of
  \<open>asyncio.sleep\<close> at line 230. \<open>None\<close> is \<open>ConnectionClosed\<close>, \<open>Some e\<close> another
  exception with text \<open>e\<close>.
\<close>

definition on_error :: "string option \<Rightarrow> client \<Rightarrow> client" where
  "on_error e c =
     (let c1 = c\<lparr>websocket := None, connected := False\<rparr>;
          c2 = c1\<lparr>message_queue := message_queue c1 @
                 [case e of None \<Rightarrow> STATUS ''Disconnected. Reconnecting...'' ''orange''
                   | Some x \<Rightarrow> STATUS (''Error: '' @ x) ''red'']\<rparr>
      in c2\<lparr>sleeps := sleeps c2 @ [reconnect_delay c2], at := Sleeping\<rparr>)"

text \<open>
  What \<open>recv\<close> and the lines after it (199-216) do with one inbound frame: a chat line or
  a system line is put on the queue, a frame of another type is ignored, text that is not
  JSON is skipped (\<open>continue\<close>); a closed connection or any other exception leaves the
  inner loop (\<open>break\<close>).
\<close>

datatype inbound =
    ChatFrame string string string
  | SystemFrame string
  | OtherFrame
  | NotJSON
  | ConnectionClosed
  | OtherException

text \<open>
  What can happen to the client: the user types and presses Send; the event loop runs the
  oldest scheduled \<open>send_ws_message\<close>; \<open>websockets.connect\<close> returns a socket or
  raises; the \<open>send\<close> of the join frame returns or raises; \<open>recv\<close> gives a frame; the
  sleep ends.
\<close>

datatype event =
    Type pystr
  | PressSend
  | RunSend send_result
  | Connected ws
  | ConnectRaises "string option"
  | JoinSent
  | JoinRaises "string option"
  | Recv inbound
  | SleepOver

text \<open>
  One step of the client. An event of the coroutine \<open>websocket_loop\<close> happens only at its
  place in the loop and leaves the state as it is elsewhere. Leaving the inner loop by
  \<open>break\<close> goes to line 230 through no handler: \<open>websocket\<close> and \<open>connected\<close> keep
  their values. Line 231 doubles the delay up to the maximum when the sleep is over.
\<close>

definition client_step :: "event \<Rightarrow> client \<Rightarrow> client" where
  "client_step ev c =
     (case ev of
        Type text \<Rightarrow> c\<lparr>message_input := text\<rparr>
      | PressSend \<Rightarrow> send_message c
      | RunSend result \<Rightarrow>
          (case scheduled c of
             [] \<Rightarrow> c
           | message # rest \<Rightarrow> send_ws_message message result (c\<lparr>scheduled := rest\<rparr>))
      | Connected w \<Rightarrow>
          (if at c = Connecting
           then c\<lparr>websocket := Some w, connected := True,
                  message_queue := message_queue c @ [STATUS ''Connected'' ''green''],
                  at := Joining\<rparr>
           else c)
      | ConnectRaises e \<Rightarrow> (if at c = Connecting then on_error e c else c)
      | JoinSent \<Rightarrow>
          (if at c = Joining
           then c\<lparr>written := written c @ [Join (client_username c)],
                  reconnect_delay := 1, at := Receiving\<rparr>
           else c)
      | JoinRaises e \<Rightarrow> (if at c = Joining then on_error e c else c)
      | Recv f \<Rightarrow>
          (if at c = Receiving
           then (case f of
                   ChatFrame timestamp name content \<Rightarrow>
                     c\<lparr>message_queue := message_queue c @
                          [CHAT (''['' @ timestamp @ ''] '' @ name @ '': '' @ content)]\<rparr>
                 | SystemFrame content \<Rightarrow>
                     c\<lparr>message_queue := message_queue c @ [CHAT (''System: '' @ content)]\<rparr>
                 | OtherFrame \<Rightarrow> c
                 | NotJSON \<Rightarrow> c
                 | ConnectionClosed \<Rightarrow>
                     c\<lparr>sleeps := sleeps c @ [reconnect_delay c], at := Sleeping\<rparr>
                 | OtherException \<Rightarrow>
                     c\<lparr>sleeps := sleeps c @ [reconnect_delay c], at := Sleeping\<rparr>)
           else c)
      | SleepOver \<Rightarrow>
          (if at c = Sleeping
           then c\<lparr>reconnect_delay := min (reconnect_delay c * 2) (max_reconnect_delay c),
                  at := Connecting\<rparr>
           else c))"

fun client_run :: "event list \<Rightarrow> client \<Rightarrow> client" where
  "client_run [] c = c"
| "client_run (ev # evs) c = client_run evs (client_step ev c)"

section \<open>Vocabulary of the properties\<close>

text \<open>
  A channel takes a send when its peer is there and the server has not closed it;
  \<open>delivered s u m\<close> is what a send of \<open>m\<close> to the name \<open>u\<close> adds to the outbox, and
  \<open>undeliverable s u\<close> says that this send raises.
\<close>

definition sendable :: "world \<Rightarrow> ws \<Rightarrow> bool" where
  "sendable s w = (w \<notin> peer_gone s \<and> w \<notin> set (close_calls s))"




text \<open>
  Register frames for one username, sent by the connections and with the passwords
  listed, and the answers that reach the connections that take a send.
\<close>

definition register_frames :: "string \<Rightarrow> (ws \<times> string) list \<Rightarrow> (ws \<times> recv) list" where
  "register_frames u reqs = map (\<lambda>(w, p). (w, Received (Register u p))) reqs"

definition answered :: "world \<Rightarrow> envelope \<Rightarrow> (ws \<times> string) list \<Rightarrow> (ws \<times> envelope) list" where
  "answered s m reqs = map (\<lambda>(w, p). (w, m)) (filter (\<lambda>(w, p). sendable s w) reqs)"

definition username_taken :: envelope where
  "username_taken = RegisterResponse False (Some ''Username already exists'')"



subsection \<open>Concrete states\<close>

text \<open>A server that has the attribute \<open>groups\<close>, empty, and is otherwise fresh.\<close>

definition with_groups :: world where
  "with_groups = (init Map.empty)\<lparr>groups := Some Map.empty\<rparr>"

text \<open>User \<open>a\<close> has registered and logged in on channel 1 of a fresh server.\<close>

definition alice_online :: system where
  "alice_online =
     run [(1, Received (Register ''a'' ''pw'')), (1, Received (Login ''a'' ''pw''))]
         (start (init Map.empty))"

definition to_unknown_group :: chat_msg where
  "to_unknown_group =
     \<lparr> m_username = ''a'', m_content = ''hi'', m_timestamp = ''t'',
       m_group = Some ''g'', m_to = None \<rparr>"

text \<open>
  Users \<open>a\<close>, \<open>b\<close> and \<open>c\<close> are logged in on channels 1, 2 and 3; then the peer of
  channel 1 disconnects. \<open>to_everyone\<close> is a message with neither \<open>group\<close> nor \<open>to\<close>.
\<close>

definition three_online :: system where
  "three_online =
     run [(1, Received (Register ''a'' ''pa'')), (1, Received (Login ''a'' ''pa'')),
          (2, Received (Register ''b'' ''pb'')), (2, Received (Login ''b'' ''pb'')),
          (3, Received (Register ''c'' ''pc'')), (3, Received (Login ''c'' ''pc''))]
         (start (init Map.empty))"

definition peer_lost :: world where
  "peer_lost = (state three_online)\<lparr>peer_gone := {1}\<rparr>"

definition to_everyone :: chat_msg where
  "to_everyone =
     \<lparr> m_username = ''c'', m_content = ''hi'', m_timestamp = ''t'',
       m_group = None, m_to = None \<rparr>"

text \<open>User \<open>b\<close> is registered but has no session; user \<open>a\<close> is logged in on channel 1.\<close>

definition bob_offline :: system where
  "bob_offline =
     run [(1, Received (Register ''a'' ''pa'')), (2, Received (Register ''b'' ''pb'')),
          (1, Received (Login ''a'' ''pa''))]
         (start (init Map.empty))"

text \<open>User \<open>u\<close> logged in on channel 1 and then again on channel 2.\<close>

definition superseded :: system where
  "superseded =
     run [(1, Received (Register ''u'' ''pw'')), (1, Received (Login ''u'' ''pw'')),
          (2, Received (Login ''u'' ''pw''))]
         (start (init Map.empty))"

text \<open>
  User \<open>a\<close> of \<open>bob_offline\<close> has added \<open>b\<close> as a friend; then the server process is
  started again: \<open>ChatServer()\<close> is constructed anew on the file the first process wrote.
\<close>

definition befriended :: system where
  "befriended = step (1, Received (AddFriend ''b'')) bob_offline"

definition restarted :: world where
  "restarted = init (users_file (state befriended))"

section \<open>Properties of the server\<close>

lemmas server_defs =
  start_def init_def step_def loop_body_def dispatch_def register_user_def login_user_def
  send_json_def broadcast_def save_user_data_def route_message_def broadcast_to_group_def
  handle_create_group_def handle_add_friend_def append_friend_def send_direct_message_def
  close_def disconnect_cleanup_def error_cleanup_def

subsection \<open>What the sending procedures leave alone\<close>

lemma send_json_groups: "groups (snd (send_json w m s)) = groups s"
  by (simp add: send_json_def)

lemma send_json_exn:
  "fst (send_json w m s) \<in> {None, Some WebSocketDisconnect, Some RuntimeError}"
  by (simp add: send_json_def)

lemma direct_loop_map_of:
  "direct_loop cs r m s =
     (case map_of cs r of None \<Rightarrow> (None, s) | Some w \<Rightarrow> send_json w m s)"
  by (induction cs r m s rule: direct_loop.induct) auto

lemma send_direct_message_groups: "groups (snd (send_direct_message u m s)) = groups s"
  by (simp add: send_direct_message_def direct_loop_map_of send_json_groups split: option.splits)

lemma send_direct_message_exn:
  "fst (send_direct_message u m s) \<in> {None, Some WebSocketDisconnect, Some RuntimeError}"
  using send_json_exn
  by (simp add: send_direct_message_def direct_loop_map_of split: option.splits)

lemma group_loop_groups: "groups (snd (group_loop us m sender s)) = groups s"
proof (induction us m sender s rule: group_loop.induct)
  case (1 m sender s)
  then show ?case by simp
next
  case (2 username rest m sender s)
  then show ?case
    using send_direct_message_groups[of username m s]
    by (cases "send_direct_message username m s") (auto split: option.splits)
qed

lemma group_loop_exn:
  "fst (group_loop us m sender s) \<in> {None, Some WebSocketDisconnect, Some RuntimeError}"
proof (induction us m sender s rule: group_loop.induct)
  case (1 m sender s)
  then show ?case by simp
next
  case (2 username rest m sender s)
  then show ?case
    using send_direct_message_exn[of username m s]
    by (cases "send_direct_message username m s") (auto split: option.splits)
qed

subsection \<open>Creating a group\<close>

text \<open>
  The attribute \<open>groups\<close> is assigned nowhere, and nothing the endpoint does creates it:
  after every sequence of frames on a server as \<open>__init__\<close> builds it, there is no group
  table, and \<open>handle_create_group\<close> raises \<open>AttributeError\<close> at line 134.
\<close>

lemma broadcast_loop_groups: "groups (snd (broadcast_loop cs m sender s)) = groups s"
proof (induction cs m sender s rule: broadcast_loop.induct)
  case (1 m sender s)
  then show ?case by simp
next
  case (2 connection rest m sender s)
  then show ?case
    using send_json_groups[of connection m s]
    by (cases "send_json connection m s") (auto split: option.splits)
qed

lemma login_user_groups: "groups (snd (login_user w u p s)) = groups s"
  by (simp add: login_user_def close_def Let_def split: option.splits)

lemma register_user_groups: "groups (snd (register_user w u p s)) = groups s"
  by (simp add: register_user_def save_user_data_def Let_def)

lemma handle_add_friend_groups: "groups (snd (handle_add_friend f r s)) = groups s"
proof -
  have af: "\<And>x y t. groups (snd (append_friend x y t)) = groups t"
    by (simp add: append_friend_def split: option.splits)
  show ?thesis
    unfolding handle_add_friend_def
    by (auto split: option.splits prod.splits
        simp: save_user_data_def
        dest!: arg_cong[where f = "\<lambda>r. groups (snd r)"]
        simp: af send_direct_message_groups)
qed

lemma broadcast_groups: "groups (snd (broadcast m sender s)) = groups s"
  by (simp add: broadcast_def broadcast_loop_groups)

lemma broadcast_to_group_groups: "groups (snd (broadcast_to_group g m sender s)) = groups s"
  by (simp add: broadcast_to_group_def group_loop_groups split: option.splits)

lemma route_message_groups: "groups (snd (route_message w m s)) = groups s"
  by (simp add: route_message_def broadcast_to_group_groups send_direct_message_groups
      broadcast_groups split: option.splits list.splits)

lemma handle_signal_groups: "groups (snd (handle_signal to m s)) = groups s"
  by (simp add: handle_signal_def send_direct_message_groups split: option.splits)

lemma handle_create_group_no_table:
  "groups s = None \<Longrightarrow> handle_create_group g ms c s = (Some AttributeError, s)"
  by (simp add: handle_create_group_def)

lemma dispatch_groups:
  assumes "groups s = None"
  shows "groups (snd (snd (dispatch w u d s))) = None"
  using assms
  by (cases d)
     (simp_all add: dispatch_def case_prod_beta register_user_groups login_user_groups
        send_json_groups broadcast_groups route_message_groups handle_signal_groups
        handle_add_friend_groups handle_create_group_no_table
        split: sum.splits option.splits envelope.splits)

lemma loop_body_groups:
  assumes "groups s = None"
  shows "groups (case loop_body w u r s of Continue v s' \<Rightarrow> s' | Return s' \<Rightarrow> s') = None"
proof (cases r)
  case (Received d)
  then show ?thesis
    using dispatch_groups[OF assms, of w u d]
    by (cases "dispatch w u d s" rule: prod_cases3; cases "fst (dispatch w u d s)")
       (auto simp: loop_body_def broadcast_groups disconnect_cleanup_def error_cleanup_def
          split: option.splits list.splits)
next
  case (Raised e)
  then show ?thesis
    using assms
    by (cases e) (simp_all add: loop_body_def)
qed

lemma step_groups:
  assumes "groups (state sys) = None"
  shows "groups (state (step ev sys)) = None"
proof (cases ev)
  case (Pair w r)
  show ?thesis
    using loop_body_groups[OF assms, of w "locals sys w" r] assms
    by (cases "loop_body w (locals sys w) r (state sys)") (simp_all add: step_def Pair)
qed

lemma groups_never_assigned:
  "groups (state sys) = None \<Longrightarrow> groups (state (run evs sys)) = None"
  by (induction evs arbitrary: sys) (simp_all add: step_groups)

lemma no_group_table_after_init:
  "groups (state (run evs (start (init loaded)))) = None"
  by (rule groups_never_assigned) (simp add: start_def init_def)

text \<open>
  C1 at a concrete input: user \<open>a\<close>, logged in on a fresh server, sends
  \<open>create_group\<close> for \<open>g\<close> with members \<open>a\<close> and \<open>b\<close>, then again for \<open>g\<close> with
  member \<open>c\<close>. The specification expects the first to succeed and the second to fail with
  GroupAlreadyExists, \<open>g\<close> keeping \<open>a\<close> and \<open>b\<close>. In the code the first call raises
  \<open>AttributeError\<close>, the endpoint's inner handler drops it, and after both frames the state
  is what it was: no group, no envelope.
\<close>

theorem create_group_raises_attribute_error:
  "groups (state alice_online) = None \<and>
   handle_create_group ''g'' [''a'', ''b''] (Some ''a'') (state alice_online)
     = (Some AttributeError, state alice_online) \<and>
   state (run [(1, Received (CreateGroup ''g'' [''a'', ''b''])),
               (1, Received (CreateGroup ''g'' [''c'']))] alice_online)
     = state alice_online"
  by (simp add: alice_online_def server_defs)

text \<open>
  Line 134 itself is an assignment without a test: on an object that had the attribute,
  the second call would replace the members stored by the first.
\<close>

lemma create_group_duplicate_overwrites:
  "fst (handle_create_group ''g'' [''a'', ''b''] (Some ''a'') with_groups) = None \<and>
   fst (handle_create_group ''g'' [''c''] (Some ''a'')
          (snd (handle_create_group ''g'' [''a'', ''b''] (Some ''a'') with_groups))) = None \<and>
   groups (snd (handle_create_group ''g'' [''c''] (Some ''a'')
          (snd (handle_create_group ''g'' [''a'', ''b''] (Some ''a'') with_groups))))
     = Some [''g'' \<mapsto> [''c'']]"
  by (simp add: with_groups_def server_defs)

lemma create_group_stores_members:
  assumes "groups s = Some g"
  shows "groups (snd (handle_create_group name members creator s)) = Some (g(name \<mapsto> members)) \<and>
         fst (handle_create_group name members creator s)
           \<in> {None, Some WebSocketDisconnect, Some RuntimeError}"
  using assms group_loop_exn
  by (simp add: handle_create_group_def broadcast_to_group_def group_loop_groups)

lemma create_group_stores_members_example:
  "groups (snd (handle_create_group ''g'' [''a'', ''b''] None with_groups))
     = Some [''g'' \<mapsto> [''a'', ''b'']] \<and>
   groups (snd (handle_create_group ''g'' [''c''] None
                  (snd (handle_create_group ''g'' [''a'', ''b''] None with_groups))))
     = Some [''g'' \<mapsto> [''c'']]"
  using create_group_stores_members
          [of with_groups Map.empty "''g''" "[''a'', ''b'']" None]
        create_group_stores_members
          [of "snd (handle_create_group ''g'' [''a'', ''b''] None with_groups)"
              "[''g'' \<mapsto> [''a'', ''b'']]" "''g''" "[''c'']" None]
  by (simp add: with_groups_def init_def)

subsection \<open>A message for a group that does not exist\<close>

text \<open>
  C2, as the specification states it: a message for a group that is not in the table gives
  exactly one GroupNotFound error envelope to the sender. In the code the sender, user
  \<open>a\<close> on channel 1, gets nothing: the outbox after the message is the outbox before it.
\<close>

theorem unknown_group_no_error_envelope:
  "outbox (state alice_online) = [(1, RegisterResponse True None), (1, LoginSuccess ''a'' [])] \<and>
   outbox (state (step (1, Received (Message to_unknown_group)) alice_online))
     = [(1, RegisterResponse True None), (1, LoginSuccess ''a'' [])]"
  by (simp add: alice_online_def to_unknown_group_def server_defs)

text \<open>
  C2, amended: for every sender and every non-empty group name that the table does not
  hold (or when the server has no table at all), a message for that group is delivered to
  nobody and no envelope of any kind is produced, the sender's connection goes on and the
  state is unchanged.
\<close>

theorem unknown_group_changes_nothing:
  assumes "G \<noteq> []" and "m_group m = Some G"
    and "case groups s of None \<Rightarrow> True | Some g \<Rightarrow> g G = None"
  shows "loop_body w u (Received (Message m)) s = Continue u s"
  using assms
  by (cases G) (auto simp: loop_body_def dispatch_def route_message_def broadcast_to_group_def
      split: option.splits)

theorem unknown_group_changes_nothing_witness:
  "loop_body 1 (Some ''a'') (Received (Message to_unknown_group)) with_groups
     = Continue (Some ''a'') with_groups \<and>
   loop_body 1 (Some ''a'') (Received (Message to_unknown_group)) (init Map.empty)
     = Continue (Some ''a'') (init Map.empty)"
  using unknown_group_changes_nothing
          [of "''g''" to_unknown_group with_groups 1 "Some ''a''"]
        unknown_group_changes_nothing
          [of "''g''" to_unknown_group "init Map.empty" 1 "Some ''a''"]
  by (simp add: to_unknown_group_def with_groups_def init_def)

subsection \<open>A send that fails during a broadcast\<close>

text \<open>
  C3 at a concrete input: \<open>a\<close>, \<open>b\<close> and \<open>c\<close> are registered on channels 1, 2 and 3,
  the peer of channel 1 is gone, and \<open>c\<close> sends a message to everyone. The loop of
  \<open>ChatServer.broadcast\<close> ends at the failed send to channel 1: channel 2 gets nothing,
  \<open>a\<close> stays in the registry, and the endpoint's inner handler drops the exception, so the
  state after the frame is the state before it.
\<close>

theorem broadcast_stops_at_dead_peer:
  "active_connections peer_lost = [(''a'', 1), (''b'', 2), (''c'', 3)] \<and>
   peer_gone peer_lost = {1} \<and>
   loop_body 3 (Some ''c'') (Received (Message to_everyone)) peer_lost
     = Continue (Some ''c'') peer_lost"
  by (simp add: peer_lost_def three_online_def to_everyone_def server_defs)

text \<open>
  On the same input the module-level \<open>broadcast_message\<close> delivers to channel 2 and
  removes \<open>a\<close> from the registry.
\<close>

lemma broadcast_message_skips_dead_peer:
  "outbox (broadcast_message (Forwarded (Message to_everyone)) (Some ''c'') peer_lost)
     = outbox peer_lost @ [(2, Forwarded (Message to_everyone))] \<and>
   active_connections (broadcast_message (Forwarded (Message to_everyone)) (Some ''c'') peer_lost)
     = [(''b'', 2), (''c'', 3)]"
  by (simp add: peer_lost_def three_online_def to_everyone_def server_defs broadcast_message_def)

subsection \<open>A failed login\<close>

text \<open>
  C8: a login with a username that is not registered and a login with a registered username
  and a wrong password return the same response and leave the same state, in
  \<open>login_user\<close> and in the whole turn of the endpoint loop (the envelope sent and the state
  after it).
\<close>

theorem login_failure_hides_username:
  assumes "u1 \<notin> dom (user_credentials s)" and "user_credentials s u2 = Some q" and "q \<noteq> p2"
  shows "login_user w u1 p1 s = (Inr (LoginFailure ''Invalid username or password''), s) \<and>
         login_user w u2 p2 s = login_user w u1 p1 s \<and>
         loop_body w v (Received (Login u2 p2)) s = loop_body w v (Received (Login u1 p1)) s"
  using assms by (auto simp: login_user_def loop_body_def dispatch_def)

theorem login_failure_hides_username_witness:
  "login_user 2 ''a'' ''x'' (state alice_online) = login_user 2 ''z'' ''y'' (state alice_online) \<and>
   loop_body 2 None (Received (Login ''a'' ''x'')) (state alice_online)
     = loop_body 2 None (Received (Login ''z'' ''y'')) (state alice_online)"
  using login_failure_hides_username
          [of "''z''" "state alice_online" "''a''" "''pw''" "''x''" 2 "''y''" None]
  by (simp add: alice_online_def server_defs)

subsection \<open>A login that supersedes a session\<close>

text \<open>
  C4: a successful login of \<open>u\<close> on the channel \<open>new\<close> calls \<open>close\<close> exactly once, on
  the channel that the registry held for \<open>u\<close> (and not at all when it held none), and
  afterwards the registry maps \<open>u\<close> to \<open>new\<close> and has no other entry for \<open>u\<close>. Applied
  to a second login it gives the case of two successive logins: the first channel is
  closed and only the second is registered. The registry is a dictionary: its keys are
  distinct, and stay so.
\<close>

theorem login_supersedes_session:
  assumes "distinct (map fst (active_connections s))"
    and "fst (login_user new u p s) = Inr (LoginSuccess u fs)"
  shows "close_calls (snd (login_user new u p s)) =
           close_calls s @ (case map_of (active_connections s) u of None \<Rightarrow> [] | Some old \<Rightarrow> [old]) \<and>
         map_of (active_connections (snd (login_user new u p s))) u = Some new \<and>
         (\<forall>w. (u, w) \<in> set (active_connections (snd (login_user new u p s))) \<longrightarrow> w = new) \<and>
         distinct (map fst (active_connections (snd (login_user new u p s))))"
proof -
  define s1 where "s1 = (case map_of (active_connections s) u of
                           None \<Rightarrow> s | Some old \<Rightarrow> snd (close old s))"
  define s' where "s' = s1\<lparr>active_connections := AList.update u new (active_connections s1)\<rparr>"
  have known: "u \<in> dom (user_credentials s)"
  proof (rule ccontr)
    assume "u \<notin> dom (user_credentials s)"
    then have "fst (login_user new u p s) = Inr (LoginFailure ''Invalid username or password'')"
      by (simp add: login_user_def)
    with assms(2) show False by simp
  qed
  have right: "user_credentials s u = Some p"
  proof (rule ccontr)
    assume "user_credentials s u \<noteq> Some p"
    then have "fst (login_user new u p s) = Inr (LoginFailure ''Invalid username or password'')"
      by (simp add: login_user_def)
    with assms(2) show False by simp
  qed
  have unf: "login_user new u p s =
      (case user_data s' u of None \<Rightarrow> (Inl KeyError, s')
       | Some e \<Rightarrow> (Inr (LoginSuccess u (friends e)), s'))"
    using known right unfolding login_user_def s'_def s1_def Let_def by simp
  have res: "snd (login_user new u p s) = s'"
    unfolding unf by (simp split: option.splits)
  have conns1: "active_connections s1 = active_connections s"
    by (simp add: s1_def close_def split: option.splits)
  have conns: "active_connections s' = AList.update u new (active_connections s)"
    by (simp add: s'_def conns1)
  have m: "map_of (active_connections s') u = Some new"
    by (simp add: conns update_conv')
  have d: "distinct (map fst (active_connections s'))"
    by (simp add: conns distinct_update assms(1))
  have only: "\<forall>w. (u, w) \<in> set (active_connections s') \<longrightarrow> w = new"
    using d m by (metis map_of_is_SomeI option.inject)
  have cl: "close_calls s' =
           close_calls s @ (case map_of (active_connections s) u of None \<Rightarrow> [] | Some old \<Rightarrow> [old])"
    by (simp add: s'_def s1_def close_def split: option.splits)
  show ?thesis
    unfolding res by (intro conjI) (rule cl, rule m, rule only, rule d)
qed

theorem login_supersedes_session_witness:
  "map_of (active_connections (state alice_online)) ''a'' = Some 1 \<and>
   close_calls (snd (login_user 2 ''a'' ''pw'' (state alice_online))) = [1] \<and>
   active_connections (snd (login_user 2 ''a'' ''pw'' (state alice_online))) = [(''a'', 2)] \<and>
   close_calls (snd (login_user 3 ''a'' ''pw'' (snd (login_user 2 ''a'' ''pw'' (state alice_online)))))
     = [1, 2] \<and>
   active_connections (snd (login_user 3 ''a'' ''pw'' (snd (login_user 2 ''a'' ''pw'' (state alice_online)))))
     = [(''a'', 3)]"
  using login_supersedes_session [of "state alice_online" 2 "''a''" "''pw''" "[]"]
  by (simp add: alice_online_def server_defs)

subsection \<open>Registering a username again\<close>

text \<open>
  A register frame for a username that has credentials changes nothing but the outbox,
  which gets the refusal on the requesting channel, if that channel takes a send; a
  register frame for a new username stores the credentials and answers with success.
\<close>

lemma register_again:
  assumes "user_credentials (state sys) u = Some q" and "w \<notin> returned sys"
  shows "step (w, Received (Register u p)) sys =
         sys\<lparr>state := (state sys)\<lparr>outbox := outbox (state sys) @
               (if sendable (state sys) w then [(w, username_taken)] else [])\<rparr>\<rparr>"
  using assms
  by (auto simp: step_def loop_body_def dispatch_def register_user_def send_json_def
      username_taken_def sendable_def)

lemma register_first:
  assumes "u \<notin> dom (user_credentials (state sys))" and "w \<notin> returned sys"
  shows "step (w, Received (Register u p)) sys =
         sys\<lparr>state := (state sys)\<lparr>
               user_credentials := (user_credentials (state sys))(u \<mapsto> p),
               user_data := (user_data (state sys))(u \<mapsto> \<lparr>password = p, friends = []\<rparr>),
               users_file := (user_data (state sys))(u \<mapsto> \<lparr>password = p, friends = []\<rparr>),
               outbox := outbox (state sys) @
               (if sendable (state sys) w then [(w, RegisterResponse True None)] else [])\<rparr>\<rparr>"
  using assms
  by (auto simp: step_def loop_body_def dispatch_def register_user_def send_json_def
      save_user_data_def Let_def sendable_def)

lemma register_rest:
  assumes "user_credentials (state sys) u = Some q" and "returned sys = {}"
  shows "run (register_frames u reqs) sys =
         sys\<lparr>state := (state sys)\<lparr>outbox := outbox (state sys) @
               answered (state sys) username_taken reqs\<rparr>\<rparr>"
  using assms
proof (induction reqs arbitrary: sys)
  case Nil
  then show ?case by (simp add: register_frames_def answered_def)
next
  case (Cons r reqs)
  obtain w p where r: "r = (w, p)" by (cases r)
  let ?sys1 = "step (w, Received (Register u p)) sys"
  have s1: "?sys1 = sys\<lparr>state := (state sys)\<lparr>outbox := outbox (state sys) @
               (if sendable (state sys) w then [(w, username_taken)] else [])\<rparr>\<rparr>"
    using register_again[of sys u q w p] Cons.prems by simp
  have "run (register_frames u reqs) ?sys1 =
        ?sys1\<lparr>state := (state ?sys1)\<lparr>outbox := outbox (state ?sys1) @
             answered (state ?sys1) username_taken reqs\<rparr>\<rparr>"
    by (rule Cons.IH) (simp_all add: s1 Cons.prems)
  moreover have "answered (state ?sys1) username_taken reqs = answered (state sys) username_taken reqs"
    by (simp add: s1 answered_def sendable_def)
  ultimately show ?case
    by (simp add: r register_frames_def s1 answered_def)
qed

text \<open>
  Within one server process: of a sequence of register frames for the same username
  \<open>u\<close>, absent from \<open>user_credentials\<close> before, sent by any connections with any
  passwords, only the first succeeds. The state after the whole sequence holds the first
  password for \<open>u\<close>, and the outbox has grown by one envelope for each request, on the
  requesting channel only: success for the first, \<open>Username already exists\<close> for every
  later one (a channel that takes no send gets nothing). Nothing else has changed.
\<close>

lemma register_same_username:
  assumes "u \<notin> dom (user_credentials s)"
  shows "state (run (register_frames u ((w, p) # reqs)) (start s)) =
         s\<lparr>user_credentials := (user_credentials s)(u \<mapsto> p),
           user_data := (user_data s)(u \<mapsto> \<lparr>password = p, friends = []\<rparr>),
           users_file := (user_data s)(u \<mapsto> \<lparr>password = p, friends = []\<rparr>),
           outbox := outbox s @ answered s (RegisterResponse True None) [(w, p)]
                       @ answered s username_taken reqs\<rparr>"
proof -
  let ?sys1 = "step (w, Received (Register u p)) (start s)"
  have s1: "?sys1 = (start s)\<lparr>state := s\<lparr>
               user_credentials := (user_credentials s)(u \<mapsto> p),
               user_data := (user_data s)(u \<mapsto> \<lparr>password = p, friends = []\<rparr>),
               users_file := (user_data s)(u \<mapsto> \<lparr>password = p, friends = []\<rparr>),
               outbox := outbox s @ answered s (RegisterResponse True None) [(w, p)]\<rparr>\<rparr>"
    using register_first[of u "start s" w p] assms
    by (simp add: start_def answered_def)
  have "run (register_frames u reqs) ?sys1 =
        ?sys1\<lparr>state := (state ?sys1)\<lparr>outbox := outbox (state ?sys1) @
            answered (state ?sys1) username_taken reqs\<rparr>\<rparr>"
    by (rule register_rest[where q = p]) (simp_all only: s1, simp_all add: start_def)
  moreover have "answered (state ?sys1) username_taken reqs = answered s username_taken reqs"
    by (simp add: s1 answered_def sendable_def)
  ultimately show ?thesis
    by (simp add: register_frames_def s1)
qed

lemma register_same_username_witness:
  "user_credentials
     (state (run (register_frames ''a'' [(1, ''p1''), (2, ''p2''), (1, ''p3'')])
                 (start (init Map.empty)))) ''a'' = Some ''p1'' \<and>
   outbox
     (state (run (register_frames ''a'' [(1, ''p1''), (2, ''p2''), (1, ''p3'')])
                 (start (init Map.empty))))
     = [(1, RegisterResponse True None), (2, username_taken), (1, username_taken)]"
  using register_same_username [of "''a''" "init Map.empty" 1 "''p1''" "[(2, ''p2''), (1, ''p3'')]"]
  by (simp add: init_def answered_def sendable_def)

text \<open>
  \<open>register_user\<close> tests \<open>user_credentials\<close> (line 57), which \<open>__init__\<close> sets to the
  empty dictionary (line 31), while \<open>user_data\<close> is loaded from the file (line 42): on a
  server that has been started again every register succeeds, whatever the file holds.
\<close>

lemma register_after_init_succeeds:
  "fst (register_user w u p (init loaded)) = RegisterResponse True None \<and>
   user_data (snd (register_user w u p (init loaded))) u = Some \<lparr>password = p, friends = []\<rparr>"
  by (simp add: register_user_def init_def save_user_data_def)

text \<open>
  C5 at a concrete input: \<open>a\<close> registers with password \<open>pa\<close> and adds the friend
  \<open>b\<close>; the server is started again, the file holding \<open>a\<close> with that password and
  friend; then a connection sends a register frame for \<open>a\<close> with another password. The
  specification expects this later register to fail and the stored credentials to stay.
  In the code it succeeds, and the stored password and friend list of \<open>a\<close> are replaced,
  in memory and in the file.
\<close>

theorem register_after_restart_succeeds:
  "users_file (state befriended) ''a'' = Some \<lparr>password = ''pa'', friends = [''b'']\<rparr> \<and>
   user_data restarted ''a'' = Some \<lparr>password = ''pa'', friends = [''b'']\<rparr> \<and>
   outbox (state (step (3, Received (Register ''a'' ''other'')) (start restarted)))
     = [(3, RegisterResponse True None)] \<and>
   user_data (state (step (3, Received (Register ''a'' ''other'')) (start restarted))) ''a''
     = Some \<lparr>password = ''other'', friends = []\<rparr> \<and>
   users_file (state (step (3, Received (Register ''a'' ''other'')) (start restarted))) ''a''
     = Some \<lparr>password = ''other'', friends = []\<rparr>"
  by (simp add: restarted_def befriended_def bob_offline_def server_defs)

subsection \<open>Adding a friend\<close>











subsection \<open>A disconnect after a newer login\<close>

text \<open>
  An exception deriving from \<open>Exception\<close> that \<open>receive_json\<close> raises is taken by the
  inner handler of line 219, and the loop goes on with the state as it was: the cleanup
  of lines 223-230 is not reached.
\<close>

lemma raised_exception_continues:
  "is_Exception e \<Longrightarrow> loop_body w u (Raised e) s = Continue u s"
  by (simp add: loop_body_def)

text \<open>
  C10 at a concrete input: \<open>u\<close> logs in on channel 1 and then on channel 2, which closes
  channel 1 and leaves \<open>u\<close> registered with channel 2; then the transport of channel 1
  disconnects and \<open>receive_json\<close> raises \<open>WebSocketDisconnect\<close> in the coroutine of
  channel 1, whose variable \<open>username\<close> is \<open>u\<close>. The claim expects the entry of \<open>u\<close>
  to be deleted. In the code the loop of channel 1 continues, its coroutine does not
  return, and the registry still maps \<open>u\<close> to channel 2.
\<close>

theorem stale_disconnect_keeps_registry:
  "active_connections (state superseded) = [(''u'', 2)] \<and>
   locals superseded 1 = Some ''u'' \<and>
   close_calls (state superseded) = [1] \<and>
   loop_body 1 (Some ''u'') (Raised WebSocketDisconnect) (state superseded)
     = Continue (Some ''u'') (state superseded) \<and>
   active_connections (state (step (1, Raised WebSocketDisconnect) superseded)) = [(''u'', 2)] \<and>
   returned (step (1, Raised WebSocketDisconnect) superseded) = {}"
  by (simp add: superseded_def server_defs)

text \<open>
  The body of the handler of line 223, had it run for channel 1, deletes the entry by its
  name, whatever channel it holds.
\<close>

lemma disconnect_cleanup_deletes_by_name:
  "active_connections (snd (disconnect_cleanup (Some ''u'') (state superseded))) = []"
  by (simp add: superseded_def server_defs)

section \<open>Properties of the client\<close>

subsection \<open>The reconnection delay\<close>









text \<open>From the sixth failed attempt in a row on, the sleep is of 30 seconds.\<close>

lemma backoff_reaches_cap:
  "sleeps (client_run [ConnectRaises None, SleepOver, ConnectRaises None, SleepOver,
                       ConnectRaises None, SleepOver, ConnectRaises None, SleepOver,
                       ConnectRaises None, SleepOver, ConnectRaises None, SleepOver,
                       ConnectRaises None] (client_init ''n'')) = [1, 2, 4, 8, 16, 30, 30]"
  by (simp add: client_init_def client_step_def on_error_def Let_def)

subsection \<open>Sending while not connected\<close>

text \<open>
  When the attribute \<open>connected\<close> is false, \<open>send_message\<close> does nothing for a text
  that is empty after \<open>strip\<close>, and otherwise empties the input field and puts one status
  on the queue. The state after it does not depend on the text: the text is kept nowhere,
  so nothing that happens later can send it.
\<close>

lemma send_message_not_connected:
  assumes "\<not> connected c"
  shows "send_message c =
           (if strip (message_input c) = [] then c
            else c\<lparr>message_input := [],
                   message_queue := message_queue c @
                     [STATUS ''Not connected to server. Message will be sent when connected.''
                             ''orange'']\<rparr>)"
  using assms by (simp add: send_message_def Let_def)

lemma send_message_not_connected_forgets:
  assumes "\<not> connected c" and "strip m1 \<noteq> []" and "strip m2 \<noteq> []"
  shows "send_message (c\<lparr>message_input := m1\<rparr>) = send_message (c\<lparr>message_input := m2\<rparr>)"
  using assms by (simp add: send_message_def Let_def)

text \<open>
  The handlers of lines 218-227 set \<open>connected\<close> to false and \<open>websocket\<close> to \<open>None\<close>;
  leaving the receive loop by \<open>break\<close> (lines 211-216) does neither, so during the sleep
  and the next attempt \<open>connected\<close> is still true and \<open>websocket\<close> is the closed socket.
\<close>

lemma handler_clears_connected:
  "at c = Connecting \<Longrightarrow> \<not> connected (client_step (ConnectRaises e) c) \<and>
     websocket (client_step (ConnectRaises e) c) = None"
  by (simp add: client_step_def on_error_def Let_def)

lemma break_keeps_connected:
  "at c = Receiving \<Longrightarrow> connected (client_step (Recv ConnectionClosed) c) = connected c \<and>
     websocket (client_step (Recv ConnectionClosed) c) = websocket c \<and>
     at (client_step (Recv ConnectionClosed) c) = Sleeping"
  by (simp add: client_step_def)

text \<open>
  C7 at a concrete input: the client connects and sends its join frame, the server closes
  the connection, \<open>recv\<close> raises \<open>ConnectionClosed\<close> and the client sleeps before it
  connects again; it is not streaming. The user types \<open>hi\<close> and presses Send. The
  specification expects the attempt to fail at once with a not-connected status. In the
  code \<open>connected\<close> is still true: no status is put on the queue, the text is handed to
  the event loop as a \<open>send_ws_message\<close> coroutine, which writes to the closed socket, and
  the user is told of it only when that write raises.
\<close>

theorem send_after_stream_closed_is_attempted:
  "at (client_run [Connected 1, JoinSent, Recv ConnectionClosed] (client_init ''n'')) = Sleeping \<and>
   connected (client_run [Connected 1, JoinSent, Recv ConnectionClosed] (client_init ''n'')) \<and>
   message_queue (client_run [Connected 1, JoinSent, Recv ConnectionClosed] (client_init ''n''))
     = [STATUS ''Connected'' ''green''] \<and>
   message_queue (client_run [Connected 1, JoinSent, Recv ConnectionClosed,
                              Type [104, 105], PressSend] (client_init ''n''))
     = [STATUS ''Connected'' ''green''] \<and>
   scheduled (client_run [Connected 1, JoinSent, Recv ConnectionClosed,
                          Type [104, 105], PressSend] (client_init ''n''))
     = [[104, 105]] \<and>
   message_queue (client_run [Connected 1, JoinSent, Recv ConnectionClosed,
                              Type [104, 105], PressSend, RunSend (SendRaises ''closed'')]
                    (client_init ''n''))
     = [STATUS ''Connected'' ''green'', STATUS ''Error sending message: closed'' ''red'']"
  by (simp add: client_init_def client_step_def send_message_def send_ws_message_def
      strip_def is_space_def Let_def)

end
